theory Spec2Isabelle
  imports Complex_Main
begin

section \<open>JavaScript values\<close>

text \<open>
  The scoring code is JavaScript. Its numbers are modelled as exact rationals together with
  the three non-finite values of the language; the rounding of double precision arithmetic
  and the sign of zero are not modelled, so that a sum or a product is the exact value that
  the code's double approximates. Comparisons of numbers are exact in the code as well. A raw field value is \<open>undefined\<close>, \<open>null\<close>,
  a number or a string, as in the data model of the specification; strings are lists of
  8-bit characters.
\<close>

datatype jsnum = NaN | Fin rat | PInf | NInf

datatype jsval = JUndefined | JNull | JNum jsnum | JStr string

abbreviation num :: "rat \<Rightarrow> jsval" where
  "num r \<equiv> JNum (Fin r)"

subsection \<open>Arithmetic and comparison of numbers\<close>

definition isNaN :: "jsnum \<Rightarrow> bool" where
  "isNaN x = (x = NaN)"

fun num_sign :: "jsnum \<Rightarrow> int" where
  "num_sign NaN = 0"
| "num_sign (Fin a) = (if a < 0 then - 1 else if a = 0 then 0 else 1)"
| "num_sign PInf = 1"
| "num_sign NInf = - 1"

fun num_add :: "jsnum \<Rightarrow> jsnum \<Rightarrow> jsnum" where
  "num_add NaN y = NaN"
| "num_add x NaN = NaN"
| "num_add (Fin a) (Fin b) = Fin (a + b)"
| "num_add PInf NInf = NaN"
| "num_add NInf PInf = NaN"
| "num_add PInf y = PInf"
| "num_add x PInf = PInf"
| "num_add NInf y = NInf"
| "num_add x NInf = NInf"

fun num_mul :: "jsnum \<Rightarrow> jsnum \<Rightarrow> jsnum" where
  "num_mul NaN y = NaN"
| "num_mul x NaN = NaN"
| "num_mul (Fin a) (Fin b) = Fin (a * b)"
| "num_mul x y =
     (let s = num_sign x * num_sign y
      in if s = 0 then NaN else if 0 < s then PInf else NInf)"

fun num_less :: "jsnum \<Rightarrow> jsnum \<Rightarrow> bool" where
  "num_less NaN y = False"
| "num_less x NaN = False"
| "num_less (Fin a) (Fin b) = (a < b)"
| "num_less x NInf = False"
| "num_less NInf y = True"
| "num_less PInf y = False"
| "num_less x PInf = True"

definition num_le :: "jsnum \<Rightarrow> jsnum \<Rightarrow> bool" where
  "num_le x y = (x \<noteq> NaN \<and> y \<noteq> NaN \<and> \<not> num_less y x)"

definition num_ge :: "jsnum \<Rightarrow> jsnum \<Rightarrow> bool" where
  "num_ge x y = num_le y x"

definition num_gt :: "jsnum \<Rightarrow> jsnum \<Rightarrow> bool" where
  "num_gt x y = num_less y x"

definition Math_max :: "jsnum \<Rightarrow> jsnum \<Rightarrow> jsnum" where
  "Math_max x y = (if x = NaN \<or> y = NaN then NaN else if num_less x y then y else x)"

definition Math_min :: "jsnum \<Rightarrow> jsnum \<Rightarrow> jsnum" where
  "Math_min x y = (if x = NaN \<or> y = NaN then NaN else if num_less y x then y else x)"

text \<open>\<open>Math.round\<close> rounds to the nearest integer, a tie going up.\<close>

fun Math_round :: "jsnum \<Rightarrow> jsnum" where
  "Math_round (Fin a) = Fin (of_int \<lfloor>a + 1 / 2\<rfloor>)"
| "Math_round x = x"


text \<open>Truthiness, and the operator \<open>||\<close>, which yields its first truthy operand.\<close>

fun truthy :: "jsval \<Rightarrow> bool" where
  "truthy JUndefined = False"
| "truthy JNull = False"
| "truthy (JNum x) = (x \<noteq> NaN \<and> x \<noteq> Fin 0)"
| "truthy (JStr s) = (s \<noteq> [])"

definition js_or :: "jsval \<Rightarrow> jsval \<Rightarrow> jsval" where
  "js_or a b = (if truthy a then a else b)"

subsection \<open>Strings\<close>

text \<open>
  \<open>trim\<close> removes white space and line terminators at both ends; \<open>toLowerCase\<close> is
  modelled on the letters A to Z, the only ones the keywords of the scoring rules contain.
\<close>

definition is_space :: "char \<Rightarrow> bool" where
  "is_space c = (of_char c \<in> {9, 10, 11, 12, 13, 32, 160 :: nat})"

definition trimStart :: "string \<Rightarrow> string" where
  "trimStart s = dropWhile is_space s"

definition trim :: "string \<Rightarrow> string" where
  "trim s = rev (dropWhile is_space (rev (dropWhile is_space s)))"

definition lower_char :: "char \<Rightarrow> char" where
  "lower_char c =
     (case map_of (zip ''ABCDEFGHIJKLMNOPQRSTUVWXYZ'' ''abcdefghijklmnopqrstuvwxyz'') c of
        Some l \<Rightarrow> l
      | None \<Rightarrow> c)"

definition toLowerCase :: "string \<Rightarrow> string" where
  "toLowerCase s = map lower_char s"

fun startsWith :: "string \<Rightarrow> string \<Rightarrow> bool" where
  "startsWith s [] = True"
| "startsWith [] (p # ps) = False"
| "startsWith (c # cs) (p # ps) = (c = p \<and> startsWith cs ps)"

fun str_includes :: "string \<Rightarrow> string \<Rightarrow> bool" where
  "str_includes [] pat = (pat = [])"
| "str_includes (c # cs) pat = (startsWith (c # cs) pat \<or> str_includes cs pat)"

subsection \<open>\<open>parseInt\<close> and \<open>parseFloat\<close>\<close>

definition digit_of :: "char \<Rightarrow> nat option" where
  "digit_of c =
     (if 48 \<le> (of_char c :: nat) \<and> (of_char c :: nat) \<le> 57
      then Some (of_char c - 48) else None)"

definition hex_digit_of :: "char \<Rightarrow> nat option" where
  "hex_digit_of c =
     (let n = (of_char c :: nat)
      in if 48 \<le> n \<and> n \<le> 57 then Some (n - 48)
         else if 97 \<le> n \<and> n \<le> 102 then Some (n - 87)
         else if 65 \<le> n \<and> n \<le> 70 then Some (n - 55)
         else None)"

definition is_digit :: "char \<Rightarrow> bool" where
  "is_digit c = (digit_of c \<noteq> None)"

definition is_hex_digit :: "char \<Rightarrow> bool" where
  "is_hex_digit c = (hex_digit_of c \<noteq> None)"

definition digits_value :: "nat \<Rightarrow> (char \<Rightarrow> nat option) \<Rightarrow> string \<Rightarrow> nat" where
  "digits_value radix dig ds = foldl (\<lambda>a c. radix * a + (case dig c of Some d \<Rightarrow> d | None \<Rightarrow> 0)) 0 ds"

text \<open>A sign in front of a literal: the factor it stands for and the rest of the string.\<close>

fun strip_sign :: "string \<Rightarrow> bool \<times> string" where
  "strip_sign [] = (False, [])"
| "strip_sign (c # cs) =
     (if c = CHR ''-'' then (True, cs)
      else if c = CHR ''+'' then (False, cs)
      else (False, c # cs))"

text \<open>
  \<open>parseInt\<close> of a string, without a radix: leading white space is skipped, a sign is
  read, the prefix \<open>0x\<close> selects base 16, and the longest run of digits is the value; no
  digit gives \<open>NaN\<close>.
\<close>

definition parseInt_str :: "string \<Rightarrow> jsnum" where
  "parseInt_str s =
     (let (neg, r) = strip_sign (trimStart s);
          hex = (startsWith r ''0x'' \<or> startsWith r ''0X'');
          body = (if hex then drop 2 r else r);
          ds = (if hex then takeWhile is_hex_digit body else takeWhile is_digit body);
          v = (if hex then digits_value 16 hex_digit_of ds else digits_value 10 digit_of ds)
      in if ds = [] then NaN
         else Fin (if neg then - of_nat v else of_nat v))"

text \<open>
  The exponent part of a decimal literal: \<open>e\<close> or \<open>E\<close>, an optional sign and at least
  one digit; anything else is no exponent.
\<close>

definition exponent_of :: "string \<Rightarrow> int" where
  "exponent_of s =
     (case s of
        [] \<Rightarrow> 0
      | c # cs \<Rightarrow>
          if c = CHR ''e'' \<or> c = CHR ''E'' then
            (let (neg, r) = strip_sign cs;
                 ds = takeWhile is_digit r;
                 v = int (digits_value 10 digit_of ds)
             in if ds = [] then 0 else if neg then - v else v)
          else 0)"

definition scale10 :: "rat \<Rightarrow> int \<Rightarrow> rat" where
  "scale10 m e = (if 0 \<le> e then m * 10 ^ nat e else m / 10 ^ nat (- e))"

text \<open>
  \<open>parseFloat\<close> of a string: leading white space is skipped and the longest prefix that
  is a decimal literal (or a signed \<open>Infinity\<close>) is the value; no such prefix gives
  \<open>NaN\<close>.
\<close>

definition parseFloat_str :: "string \<Rightarrow> jsnum" where
  "parseFloat_str s =
     (let (neg, r) = strip_sign (trimStart s)
      in if startsWith r ''Infinity'' then (if neg then NInf else PInf)
         else
           (let ip = takeWhile is_digit r;
                r1 = dropWhile is_digit r;
                dot = startsWith r1 ''.'';
                fp = (if dot then takeWhile is_digit (tl r1) else []);
                r2 = (if dot then dropWhile is_digit (tl r1) else r1);
                m = of_nat (digits_value 10 digit_of ip)
                    + of_nat (digits_value 10 digit_of fp) / 10 ^ length fp;
                v = scale10 m (exponent_of r2)
            in if ip = [] \<and> fp = [] then NaN
               else Fin (if neg then - v else v)))"

text \<open>
  Applied to a number, both functions read its decimal string. \<open>parseFloat\<close> gives the
  number back. \<open>parseInt\<close> gives its integer part, except that a number printed in
  exponent notation (magnitude at least \<open>10\<^sup>2\<^sup>1\<close>, or below \<open>10\<^sup>-\<^sup>6\<close> and not zero)
  is read up to the decimal point of the mantissa, which leaves its leading digit.
\<close>

function lead_digit :: "int \<Rightarrow> int" where
  "lead_digit n = (if n < 10 then n else lead_digit (n div 10))"
  by pat_completeness auto
termination
  by (relation "measure nat") auto

function ndigits :: "int \<Rightarrow> nat" where
  "ndigits n = (if n < 10 then 1 else Suc (ndigits (n div 10)))"
  by pat_completeness auto
termination
  by (relation "measure nat") auto

declare lead_digit.simps [simp del] ndigits.simps [simp del]

definition lead_digit_small :: "rat \<Rightarrow> int" where
  "lead_digit_small x =
     (let d = ndigits \<lfloor>1 / x\<rfloor>
      in if x * 10 ^ (d - 1) = 1 then 1 else \<lfloor>x * 10 ^ d\<rfloor>)"

definition parseInt_num :: "jsnum \<Rightarrow> jsnum" where
  "parseInt_num x =
     (case x of
        Fin a \<Rightarrow>
          (let m = \<bar>a\<bar>;
               v = (if a = 0 then 0
                    else if 10 ^ 21 \<le> m then lead_digit \<lfloor>m\<rfloor>
                    else if m < 1 / 10 ^ 6 then lead_digit_small m
                    else \<lfloor>m\<rfloor>)
           in Fin (of_int (if a < 0 then - v else v)))
      | _ \<Rightarrow> NaN)"

fun parseInt :: "jsval \<Rightarrow> jsnum" where
  "parseInt (JStr s) = parseInt_str s"
| "parseInt (JNum x) = parseInt_num x"
| "parseInt JNull = NaN"
| "parseInt JUndefined = NaN"

fun parseFloat :: "jsval \<Rightarrow> jsnum" where
  "parseFloat (JStr s) = parseFloat_str s"
| "parseFloat (JNum x) = x"
| "parseFloat JNull = NaN"
| "parseFloat JUndefined = NaN"

section \<open>Missing values\<close>

text \<open>
  Every function of \<open>SCORE_MAPPINGS\<close> opens with the same two tests: the value is
  \<open>null\<close>, \<open>undefined\<close> or the empty string, or \<open>String(value).trim()\<close> is empty or one
  of the spreadsheet's error tokens. The string of a number is never empty and never such
  a token, so the second test can hold for a string only.
\<close>

definition is_blank :: "jsval \<Rightarrow> bool" where
  "is_blank v = (v = JNull \<or> v = JUndefined \<or> v = JStr [])"

definition is_sentinel :: "string \<Rightarrow> bool" where
  "is_sentinel s = (s = [] \<or> s = ''#N/A'' \<or> s = ''N/A'' \<or> s = ''#VALUE!'')"

fun trimmed_sentinel :: "jsval \<Rightarrow> bool" where
  "trimmed_sentinel (JStr s) = is_sentinel (trim s)"
| "trimmed_sentinel v = False"

text \<open>\<open>isNA\<close> of \<open>src/utils/naValues.js\<close>.\<close>

fun isNA :: "jsval \<Rightarrow> bool" where
  "isNA JNull = True"
| "isNA JUndefined = True"
| "isNA (JStr s) = (let trimmed = trim s in trimmed = [] \<or> trimmed = ''#N/A'' \<or> trimmed = ''N/A'')"
| "isNA (JNum x) = False"

section \<open>The normalizers of \<open>SCORE_MAPPINGS\<close>\<close>

text \<open>A normalizer returns a number, or \<open>null\<close> for a missing sub-score.\<close>

definition cod :: "jsval \<Rightarrow> jsval" where
  "cod year =
     (if is_blank year then JNull
      else if trimmed_sentinel year then JNull
      else let codYear = parseInt year
           in if isNaN codYear then JNull
              else if num_less codYear (Fin 2000) then num 3
              else if num_le codYear (Fin 2005) then num 2
              else num 1)"

definition capacityFactor :: "jsval \<Rightarrow> jsval" where
  "capacityFactor cf =
     (if is_blank cf then JNull
      else if trimmed_sentinel cf then JNull
      else let cfNum = parseFloat cf
           in if isNaN cfNum then JNull
              else if num_less cfNum (Fin 0.1) then num 3
              else if num_le cfNum (Fin 0.25) then num 2
              else num 1)"

definition premiumMarkets :: "string list" where
  "premiumMarkets = [''PJM'', ''NYISO'', ''ISO-NE'']"

definition goodMarkets :: "string list" where
  "goodMarkets = [''MISO North'', ''SERC'']"

definition neutralMarkets :: "string list" where
  "neutralMarkets = [''SPP'', ''MISO South'']"

definition poorMarkets :: "string list" where
  "poorMarkets = [''ERCOT'', ''WECC'', ''CAISO'']"

text \<open>The string of a number is in none of the market lists, which leaves the default.\<close>

definition market :: "jsval \<Rightarrow> jsval" where
  "market iso_code =
     (if is_blank iso_code then JNull
      else if trimmed_sentinel iso_code then JNull
      else case iso_code of
             JStr s \<Rightarrow>
               (let isoStr = trim s
                in if isoStr \<in> set premiumMarkets then num 3
                   else if isoStr \<in> set goodMarkets then num 2
                   else if isoStr \<in> set neutralMarkets then num 1
                   else if isoStr \<in> set poorMarkets then num 0
                   else num 1)
           | _ \<Rightarrow> num 1)"

definition transactability :: "jsval \<Rightarrow> jsval" where
  "transactability type =
     (if is_blank type then JNull
      else case type of
             JStr s \<Rightarrow>
               (let typeStr = trim s
                in if is_sentinel typeStr then JNull
                   else let lowerType = toLowerCase typeStr
                        in if str_includes lowerType ''bilateral'' \<and> str_includes lowerType ''developed''
                           then num 3
                           else if str_includes lowerType ''bilateral''
                                   \<or> str_includes lowerType ''process''
                                     \<and> str_includes lowerType ''less than 10''
                           then num 2
                           else if str_includes lowerType ''competitive''
                                   \<and> str_includes lowerType ''more than 10''
                           then num 1
                           else num 2)
           | _ \<Rightarrow>
               (let n = parseFloat type
                in if \<not> isNaN n then JNum (Math_min (Math_max (Math_round n) (Fin 0)) (Fin 3))
                   else JNull))"

text \<open>
  \<open>thermalOptimization\<close> is the exception: it never returns \<open>null\<close>. Its first test,
  \<open>value && typeof value === 'string'\<close>, holds for a non-empty string; the keywords are
  looked for in the lowercased string, which is not trimmed.
\<close>

definition thermalOptimization :: "jsval \<Rightarrow> jsval" where
  "thermalOptimization v =
     (let by_text =
            (case v of
               JStr s \<Rightarrow>
                 (if s \<noteq> [] then
                    (let lower = toLowerCase s
                     in if str_includes lower ''readily apparent'' then Some (num 2)
                        else if str_includes lower ''no identifiable'' then Some (num 1)
                        else None)
                  else None)
             | _ \<Rightarrow> None)
      in case by_text of
           Some r \<Rightarrow> r
         | None \<Rightarrow>
             (if v = num 0 then num 0
              else if is_blank v then num 0
              else if trimmed_sentinel v then num 0
              else let parsed = parseInt v
                   in if \<not> isNaN parsed \<and> num_ge parsed (Fin 0) \<and> num_le parsed (Fin 2)
                      then JNum parsed
                      else num 0))"

definition environmental :: "jsval \<Rightarrow> jsval" where
  "environmental v =
     (if is_blank v then JNull
      else if v = num 0 then num 0
      else if trimmed_sentinel v then JNull
      else let score = parseInt v
           in if isNaN score then JNull
              else JNum (Math_min (Math_max score (Fin 0)) (Fin 3)))"

definition redevMarket :: "jsval \<Rightarrow> jsval" where
  "redevMarket v =
     (if is_blank v then JNull
      else if v = num 0 then num 0
      else if trimmed_sentinel v then JNull
      else let score = parseInt v
           in if isNaN score then JNull
              else JNum (Math_min (Math_max score (Fin 0)) (Fin 3)))"

definition infra :: "jsval \<Rightarrow> jsval" where
  "infra v =
     (if is_blank v then JNull
      else if v = num 0 then num 0
      else if trimmed_sentinel v then JNull
      else let score = parseFloat v
           in if isNaN score then JNull
              else if num_ge score (Fin 2.5) then num 3
              else if num_ge score (Fin 1.5) then num 2
              else if num_ge score (Fin 0.5) then num 1
              else num 0)"

definition ix :: "jsval \<Rightarrow> jsval" where
  "ix v =
     (if is_blank v then JNull
      else if v = num 0 then num 0
      else if trimmed_sentinel v then JNull
      else let score = parseFloat v
           in if isNaN score then JNull
              else if num_ge score (Fin 2.5) then num 3
              else if num_ge score (Fin 1.5) then num 2
              else if num_ge score (Fin 0.5) then num 1
              else num 0)"

section \<open>Capacity size\<close>

text \<open>\<open>calculateCapacitySizeScore\<close> of \<open>backend/utils/scoreCalculations.js\<close>.\<close>

definition calculateCapacitySizeScore :: "jsval \<Rightarrow> bool \<Rightarrow> jsval" where
  "calculateCapacitySizeScore mw isPortfolio =
     (if mw = JNull \<or> mw = JUndefined \<or> mw = JStr [] then JNull
      else let mwNum = parseFloat mw
           in if isNaN mwNum then JNull
              else let threshold = (if isPortfolio then Fin 150 else Fin 50)
                   in if num_gt mwNum threshold then num 1 else num 0)"

section \<open>The composite scores\<close>

text \<open>
  The functions of \<open>scoreCalculations.js\<close> take the project's data as an object and read
  each component under its column name or under the label of the spreadsheet. An object is a
  function from property names to values; a property it does not have reads as
  \<open>undefined\<close>.
\<close>

type_synonym jsobj = "string \<Rightarrow> jsval"

definition empty_object :: jsobj where
  "empty_object = (\<lambda>k. JUndefined)"

text \<open>
  The helper \<open>getScore\<close> of \<open>calculateThermalScore\<close>: the first source that is
  neither \<open>undefined\<close>, \<open>null\<close> nor empty and that parses as a number, or else the
  default, which is the last argument of the call.
\<close>

fun getScore :: "jsval list \<Rightarrow> jsnum \<Rightarrow> jsnum" where
  "getScore [] defaultVal = defaultVal"
| "getScore (src # sources) defaultVal =
     (if src \<noteq> JUndefined \<and> src \<noteq> JNull \<and> src \<noteq> JStr [] then
        (let n = parseFloat src
         in if \<not> isNaN n then n else getScore sources defaultVal)
      else getScore sources defaultVal)"

definition calculateThermalScore :: "jsobj \<Rightarrow> jsval" where
  "calculateThermalScore data =
     (let cod_v = getScore [data ''plant_cod'', data ''Plant  COD'', data ''Plant COD''] (Fin 0);
          markets = getScore [data ''markets'', data ''Markets''] (Fin 0);
          transact =
            getScore [data ''transactability_scores'', data ''Transactability Scores''] (Fin 0);
          thermalOptRaw =
            getScore [data ''thermal_optimization'', data ''Thermal Optimization''] (Fin 1);
          thermalOpt = Math_max (Fin 1) (if isNaN thermalOptRaw then Fin 1 else thermalOptRaw);
          environmental_v =
            getScore [data ''environmental_score'', data ''Envionmental Score'',
                      data ''Environmental Score''] (Fin 2);
          score =
            num_add (num_add (num_add (num_add
              (num_mul cod_v (Fin 0.20))
              (num_mul markets (Fin 0.30)))
              (num_mul transact (Fin 0.30)))
              (num_mul thermalOpt (Fin 0.05)))
              (num_mul environmental_v (Fin 0.15))
      in JNum (if isNaN score then Fin 0 else score))"

text \<open>The helper \<open>getScore\<close> of \<open>calculateRedevelopmentScore\<close>, with two sources.\<close>

definition getScore_redev :: "jsval \<Rightarrow> jsval \<Rightarrow> jsnum \<Rightarrow> jsnum" where
  "getScore_redev primary secondary defaultVal =
     (if primary \<noteq> JUndefined \<and> primary \<noteq> JNull \<and> primary \<noteq> JStr []
         \<and> \<not> isNaN (parseFloat primary)
      then parseFloat primary
      else if secondary \<noteq> JUndefined \<and> secondary \<noteq> JNull \<and> secondary \<noteq> JStr []
              \<and> \<not> isNaN (parseFloat secondary)
      then parseFloat secondary
      else defaultVal)"

text \<open>
  \<open>coLocate === "repower"\<close>, where \<open>coLocate\<close> is the flag's string, lowercased and
  trimmed. The flag is the first truthy one of the two properties, or the empty string; the
  string of a number is never that word.
\<close>

fun is_repower :: "jsval \<Rightarrow> bool" where
  "is_repower (JStr s) = (trim (toLowerCase s) = ''repower'')"
| "is_repower v = False"

definition calculateRedevelopmentScore :: "jsobj \<Rightarrow> jsval" where
  "calculateRedevelopmentScore data =
     (let market_v = getScore_redev (data ''market_score'') (data ''Market Score'') (Fin 2);
          infra_v = getScore_redev (data ''infra'') (data ''Infra'') (Fin 2);
          ix_v = getScore_redev (data ''ix'') (data ''IX'') (Fin 2);
          coLocate =
            js_or (js_or (data ''co_locate_repower'') (data ''Co-Locate/Repower'')) (JStr []);
          multiplier = (if is_repower coLocate then Fin 0.75 else Fin 1)
      in if market_v = Fin 0 \<or> infra_v = Fin 0 \<or> ix_v = Fin 0 then num 0
         else let score =
                    num_mul
                      (num_add (num_add (num_mul market_v (Fin 0.40)) (num_mul infra_v (Fin 0.30)))
                        (num_mul ix_v (Fin 0.30)))
                      multiplier
              in JNum (if isNaN score then Fin 0 else score))"

text \<open>\<open>x || 0\<close> for a number \<open>x\<close>: zero and \<open>NaN\<close> are falsy.\<close>

definition or_zero :: "jsnum \<Rightarrow> jsnum" where
  "or_zero x = (if x = NaN \<or> x = Fin 0 then Fin 0 else x)"

definition calculateOverallScore :: "jsval \<Rightarrow> jsval \<Rightarrow> jsval" where
  "calculateOverallScore thermal redev =
     (let thermalVal = or_zero (parseFloat thermal);
          redevVal = or_zero (parseFloat redev)
      in JNum (num_add thermalVal redevVal))"

text \<open>The objects the callers build from the normalized sub-scores.\<close>

definition thermal_components :: "jsval \<Rightarrow> jsval \<Rightarrow> jsval \<Rightarrow> jsval \<Rightarrow> jsval \<Rightarrow> jsobj" where
  "thermal_components c m t opt e =
     empty_object
       (''plant_cod'' := c, ''markets'' := m, ''transactability_scores'' := t,
        ''thermal_optimization'' := opt, ''environmental_score'' := e)"

definition redev_components :: "jsval \<Rightarrow> jsval \<Rightarrow> jsval \<Rightarrow> jsval \<Rightarrow> jsobj" where
  "redev_components m i x flag =
     empty_object
       (''market_score'' := m, ''infra'' := i, ''ix'' := x, ''co_locate_repower'' := flag)"

subsection \<open>All scores and the rating\<close>





section \<open>Notions used in the statements\<close>

text \<open>
  A raw value that the opening tests of the normalizers take as missing: \<open>null\<close>,
  \<open>undefined\<close>, the empty string, or a string whose trimmed form is empty or one of the
  three error tokens.
\<close>

definition missing_raw :: "jsval \<Rightarrow> bool" where
  "missing_raw v = (is_blank v \<or> trimmed_sentinel v)"

text \<open>A text in which \<open>thermalOptimization\<close> finds one of its two keywords.\<close>

fun has_keyword :: "jsval \<Rightarrow> bool" where
  "has_keyword (JStr s) =
     (str_includes (toLowerCase s) ''readily apparent''
      \<or> str_includes (toLowerCase s) ''no identifiable'')"
| "has_keyword v = False"

text \<open>
  The reading of the transactability rules that the specification rules out, in which the
  second rule is \<open>(bilateral or process) and less than 10\<close>. It is not what the code
  computes and serves only to show an input on which the two readings differ.
\<close>

definition misbound_rule :: "string \<Rightarrow> rat" where
  "misbound_rule l =
     (if str_includes l ''bilateral'' \<and> str_includes l ''developed'' then 3
      else if (str_includes l ''bilateral'' \<or> str_includes l ''process'')
              \<and> str_includes l ''less than 10'' then 2
      else if str_includes l ''competitive'' \<and> str_includes l ''more than 10'' then 1
      else 2)"

section \<open>The score record lifecycle\<close>

text \<open>
  The changelog of \<open>backend/models/expertAnalysis.js\<close> shows excerpts of the save
  function (the recalculation of the scores, the \<open>INSERT\<close> into the history table, the
  test on the number of transmission entries and the \<open>DELETE\<close> before the inserts), not
  the function itself. The storage below follows the specification: one current record
  per project and a list of history entries per project.
\<close>

datatype save_error = ValidationError string | StorageError

record score_record =
  rec_components :: "(string \<times> jsval) list"
  rec_thermal :: jsval
  rec_redevelopment :: jsval
  rec_overall :: jsval
  rec_rating :: string
  rec_edited_by :: string
  rec_edited_at :: nat

record history_entry =
  snapshot :: score_record
  changes_summary :: string

record storage =
  current_record :: "nat \<Rightarrow> score_record option"
  history_entries :: "nat \<Rightarrow> history_entry list"

text \<open>
  The storage layer: the two writes of a save, and the point at which an injected storage
  failure strikes. The fault \<open>Some k\<close> is a failure after \<open>k\<close> operations have been
  applied, before the next one or before the commit; \<open>None\<close> is no failure.
\<close>

datatype storage_op = WriteCurrent nat score_record | AppendHistory nat history_entry

fun apply_op :: "storage_op \<Rightarrow> storage \<Rightarrow> storage" where
  "apply_op (WriteCurrent projectId r) st =
     st\<lparr>current_record := (current_record st)(projectId \<mapsto> r)\<rparr>"
| "apply_op (AppendHistory projectId e) st =
     st\<lparr>history_entries :=
          (history_entries st)(projectId := history_entries st projectId @ [e])\<rparr>"

fun run_ops :: "nat option \<Rightarrow> storage_op list \<Rightarrow> storage \<Rightarrow> storage option" where
  "run_ops (Some 0) ops st = None"
| "run_ops fault [] st = Some st"
| "run_ops None (op # ops) st = run_ops None ops (apply_op op st)"
| "run_ops (Some (Suc k)) (op # ops) st = run_ops (Some k) ops (apply_op op st)"

text \<open>
  Modelled from the spec: the transaction of the persistence layer, which is not among the
  sources. The operations run on a working copy of the storage; a failure reports
  \<open>StorageError\<close> and leaves the storage as it was, and only a run without failure is
  committed.
\<close>

definition transaction ::
  "nat option \<Rightarrow> storage_op list \<Rightarrow> storage \<Rightarrow> (save_error + unit) \<times> storage" where
  "transaction fault ops st =
     (case run_ops fault ops st of
        None \<Rightarrow> (Inl StorageError, st)
      | Some st' \<Rightarrow> (Inr (), st'))"

text \<open>
  Modelled from the spec: the body of the save function, which is not among the sources.
  Step 3 of the save protocol: the record \<open>r\<close> recomputed from the raw inputs overwrites
  the project's current record and a history entry with the same values and the change
  summary is appended, in one transaction; the saved record is returned.
\<close>

definition saveOverride ::
  "nat option \<Rightarrow> nat \<Rightarrow> score_record \<Rightarrow> string \<Rightarrow> storage \<Rightarrow> (save_error + score_record) \<times> storage"
where
  "saveOverride fault projectId r summary st =
     (case transaction fault
             [WriteCurrent projectId r,
              AppendHistory projectId \<lparr>snapshot = r, changes_summary = summary\<rparr>] st of
        (Inl e, st') \<Rightarrow> (Inl e, st')
      | (Inr u, st') \<Rightarrow> (Inr r, st'))"

text \<open>
  The table \<open>transmission_interconnection\<close>: rows of a project id and an entry. The
  excerpts give the \<open>DELETE\<close> of all rows of the project, the insertion of each new entry
  when there is one, and the test that raises
  \<open>Maximum of 5 POI voltage entries allowed\<close>.
\<close>

type_synonym 'e child_table = "(nat \<times> 'e) list"

definition entries_of :: "nat \<Rightarrow> 'e child_table \<Rightarrow> 'e list" where
  "entries_of projectId rows = map snd (filter (\<lambda>row. fst row = projectId) rows)"

definition delete_entries :: "nat \<Rightarrow> 'e child_table \<Rightarrow> 'e child_table" where
  "delete_entries projectId rows = filter (\<lambda>row. fst row \<noteq> projectId) rows"

definition insert_entries :: "nat \<Rightarrow> 'e list \<Rightarrow> 'e child_table \<Rightarrow> 'e child_table" where
  "insert_entries projectId transmissionData rows =
     rows @ map (Pair projectId) transmissionData"

text \<open>
  Modelled from the spec: the function that replaces the entries of a project, of which
  the sources show the three excerpts above but neither their order nor the transaction
  around them. The size test comes first, so that a rejected replacement changes nothing;
  an accepted one deletes and then inserts.
\<close>

definition replaceChildEntries ::
  "nat \<Rightarrow> 'e list \<Rightarrow> 'e child_table \<Rightarrow> (save_error + unit) \<times> 'e child_table"
where
  "replaceChildEntries projectId transmissionData rows =
     (if length transmissionData > 5
      then (Inl (ValidationError ''Maximum of 5 POI voltage entries allowed''), rows)
      else let deleted = delete_entries projectId rows
           in (Inr (),
               if length transmissionData > 0
               then insert_entries projectId transmissionData deleted
               else deleted))"

section \<open>Evaluation of strings and literals\<close>

lemmas string_eval =
  trim_def trimStart_def is_space_def toLowerCase_def lower_char_def is_sentinel_def

lemmas parse_eval =
  parseInt_str_def parseFloat_str_def is_digit_def digit_of_def is_hex_digit_def
  hex_digit_of_def digits_value_def exponent_of_def scale10_def

section \<open>Properties of the composite scores\<close>

lemma getScore_present [simp]: "getScore (num a # srcs) d = Fin a"
  by (simp add: isNaN_def)

lemma getScore_skip [simp]:
  "getScore (JNull # srcs) d = getScore srcs d"
  "getScore (JUndefined # srcs) d = getScore srcs d"
  by simp_all

text \<open>The three composite functions return a number on every input, never \<open>null\<close>.\<close>

lemma calculateThermalScore_number: "\<exists>x. calculateThermalScore data = JNum x \<and> x \<noteq> NaN"
  unfolding calculateThermalScore_def Let_def isNaN_def by (simp del: getScore.simps)

lemma calculateRedevelopmentScore_number:
  "\<exists>x. calculateRedevelopmentScore data = JNum x \<and> x \<noteq> NaN"
  unfolding calculateRedevelopmentScore_def Let_def isNaN_def by simp

lemma calculateOverallScore_number: "\<exists>x. calculateOverallScore thermal redev = JNum x"
  unfolding calculateOverallScore_def Let_def by simp

text \<open>
  When its five components are numbers, the thermal score is their weighted sum, the
  thermal optimization component being raised to 1 first.
\<close>

lemma calculateThermalScore_present:
  "calculateThermalScore (thermal_components (num c) (num m) (num t) (num opt) (num e)) =
     num (c * 0.20 + m * 0.30 + t * 0.30 + max 1 opt * 0.05 + e * 0.15)"
  by (auto simp add: calculateThermalScore_def thermal_components_def empty_object_def isNaN_def
      Math_max_def max_def Let_def)

text \<open>
  C1. The thermal score is to be missing exactly when one of its five components is
  missing. \<open>calculateThermalScore\<close> does not do so: a component that is \<open>null\<close> is
  replaced by the default of its \<open>getScore\<close> call (0 for the commission date) and the
  weighted sum of the rest is returned. With a missing commission date and the components
  3, 1, 0 and 2 the result is the number 1.55, not a missing score.
\<close>

theorem calculateThermalScore_missing_cod:
  "calculateThermalScore (thermal_components JNull (num 3) (num 1) (num 0) (num 2)) = num (31 / 20)"
  by (simp add: calculateThermalScore_def thermal_components_def empty_object_def isNaN_def
      Math_max_def)

text \<open>
  When market, infrastructure and interconnection are numbers, the redevelopment score is
  zero if one of them is zero, and the weighted sum times the multiplier otherwise; the
  multiplier is 0.75 exactly when the flag, lowercased and trimmed, is \<open>repower\<close>.
\<close>

lemma calculateRedevelopmentScore_present:
  "calculateRedevelopmentScore (redev_components (num m) (num i) (num x) flag) =
     (if m = 0 \<or> i = 0 \<or> x = 0 then num 0
      else num ((m * 0.40 + i * 0.30 + x * 0.30) * (if is_repower flag then 0.75 else 1)))"
proof -
  have flag: "is_repower (js_or (js_or flag JUndefined) (JStr [])) = is_repower flag"
    by (cases flag) (auto simp: js_or_def trim_def toLowerCase_def)
  show ?thesis
    by (simp add: calculateRedevelopmentScore_def redev_components_def empty_object_def
        getScore_redev_def isNaN_def flag)
qed

text \<open>
  C2. The redevelopment score is to be missing when market, infrastructure or
  interconnection is missing. \<open>calculateRedevelopmentScore\<close> replaces a missing
  component by the default 2 instead: with a missing market score and the components 3 and
  3 it returns \<open>(2 * 0.40 + 3 * 0.30 + 3 * 0.30) * 1 = 2.6\<close>.
\<close>

theorem calculateRedevelopmentScore_missing_market:
  "calculateRedevelopmentScore (redev_components JNull (num 3) (num 3) JNull) = num (13 / 5)"
  by (simp add: calculateRedevelopmentScore_def redev_components_def empty_object_def
      getScore_redev_def isNaN_def js_or_def trim_def toLowerCase_def)

text \<open>The overall score of two numbers is their sum.\<close>

lemma calculateOverallScore_present:
  "calculateOverallScore (num a) (num b) = num (a + b)"
  by (simp add: calculateOverallScore_def or_zero_def)

text \<open>
  C3. The overall score is to be missing when the thermal or the redevelopment score is
  missing, and zero is never to stand in for a missing input. \<open>calculateOverallScore\<close>
  reads \<open>parseFloat(thermal) || 0\<close>: a missing thermal score counts as 0, and with the
  redevelopment score 2.025 the result is 2.025.
\<close>

theorem calculateOverallScore_missing_thermal:
  "calculateOverallScore JNull (num (81 / 40)) = num (81 / 40)"
  by (simp add: calculateOverallScore_def or_zero_def)

section \<open>Properties of the classification of missing values\<close>

text \<open>
  \<open>isNA\<close> holds of \<open>undefined\<close>, \<open>null\<close>, a blank string and the tokens \<open>#N/A\<close> and
  \<open>N/A\<close>, and not of the number zero; the opening tests of the normalizers also hold of
  \<open>#VALUE!\<close>.
\<close>

lemma isNA_cases:
  "isNA JUndefined" "isNA JNull" "trim s = [] \<Longrightarrow> isNA (JStr s)"
  "isNA (JStr ''#N/A'')" "isNA (JStr ''N/A'')" "\<not> isNA (num 0)"
  by (simp_all add: string_eval)

lemma missing_raw_VALUE_token: "missing_raw (JStr ''#VALUE!'')"
  by (simp add: missing_raw_def string_eval)

text \<open>
  C4. A raw value is to be classified as missing when it is \<open>undefined\<close>, \<open>null\<close>,
  blank, or one of the tokens \<open>#N/A\<close>, \<open>N/A\<close> and \<open>#VALUE!\<close>. \<open>isNA\<close> compares the
  trimmed string with the first two tokens only, so \<open>#VALUE!\<close> is classified as present,
  whereas every function of \<open>SCORE_MAPPINGS\<close> tests for all three.
\<close>

theorem isNA_VALUE_token: "isNA (JStr ''#VALUE!'') = False"
  by (simp add: trim_def is_space_def)

section \<open>Properties of the normalizers\<close>

subsection \<open>A missing value contains no keyword\<close>

lemma startsWith_set: "startsWith s p \<Longrightarrow> set p \<subseteq> set s"
  by (induction s p rule: startsWith.induct) auto

lemma str_includes_set: "str_includes s p \<Longrightarrow> set p \<subseteq> set s"
proof (induction s)
  case Nil
  then show ?case by simp
next
  case (Cons c cs)
  then show ?case using startsWith_set [of "c # cs" p] by auto
qed

lemma set_toLowerCase: "set (toLowerCase s) = lower_char ` set s"
  by (simp add: toLowerCase_def)

lemma lower_char_d: "lower_char c = CHR ''d'' \<Longrightarrow> c = CHR ''d'' \<or> c = CHR ''D''"
  by (simp add: lower_char_def split: if_splits)

lemma mem_dropWhile: "x \<in> set xs \<Longrightarrow> \<not> P x \<Longrightarrow> x \<in> set (dropWhile P xs)"
  by (induction xs) auto

lemma mem_trim: "c \<in> set s \<Longrightarrow> \<not> is_space c \<Longrightarrow> c \<in> set (trim s)"
  by (simp add: trim_def mem_dropWhile)

lemma sentinel_no_d: "is_sentinel t \<Longrightarrow> CHR ''d'' \<notin> set t \<and> CHR ''D'' \<notin> set t"
  by (auto simp: is_sentinel_def)

text \<open>
  Both keywords contain the letter d, no token does, and trimming removes white space
  only: a string whose lowercased form contains a keyword has a d left after trimming.
\<close>

lemma keyword_has_d:
  assumes "str_includes (toLowerCase s) kw" and "CHR ''d'' \<in> set kw"
  shows "CHR ''d'' \<in> set (trim s) \<or> CHR ''D'' \<in> set (trim s)"
proof -
  from assms have "CHR ''d'' \<in> lower_char ` set s"
    using str_includes_set [of "toLowerCase s" kw] by (auto simp: set_toLowerCase)
  then obtain c where c: "c \<in> set s" "lower_char c = CHR ''d''" by auto
  then have cd: "c = CHR ''d'' \<or> c = CHR ''D''" using lower_char_d by metis
  then have "\<not> is_space c" by (auto simp: is_space_def)
  with c have "c \<in> set (trim s)" by (simp add: mem_trim)
  with cd show ?thesis by auto
qed

lemma sentinel_no_keyword:
  assumes "is_sentinel (trim s)"
  shows "\<not> str_includes (toLowerCase s) ''readily apparent''"
    and "\<not> str_includes (toLowerCase s) ''no identifiable''"
  using assms keyword_has_d [of s "''readily apparent''"]
    keyword_has_d [of s "''no identifiable''"] sentinel_no_d [of "trim s"]
  by auto

subsection \<open>Missing values\<close>

lemma thermalOptimization_missing: "missing_raw v \<Longrightarrow> thermalOptimization v = num 0"
proof (cases v)
  case (JStr s)
  assume "missing_raw v"
  with JStr have "s = [] \<or> is_sentinel (trim s)"
    by (auto simp: missing_raw_def is_blank_def)
  then have s: "is_sentinel (trim s)"
    by (auto simp: trim_def is_sentinel_def)
  show ?thesis
    using s sentinel_no_keyword [OF s]
    by (simp add: thermalOptimization_def JStr is_blank_def)
qed (auto simp: thermalOptimization_def missing_raw_def is_blank_def)

lemma normalizers_missing_null:
  assumes "missing_raw v"
  shows "cod v = JNull" "capacityFactor v = JNull" "market v = JNull"
    "transactability v = JNull" "environmental v = JNull" "redevMarket v = JNull"
    "infra v = JNull" "ix v = JNull"
proof -
  show "cod v = JNull" "capacityFactor v = JNull" "market v = JNull"
    using assms by (auto simp: missing_raw_def cod_def capacityFactor_def market_def)
  show "environmental v = JNull" "redevMarket v = JNull" "infra v = JNull" "ix v = JNull"
    using assms
    by (auto simp: missing_raw_def environmental_def redevMarket_def infra_def ix_def
        is_blank_def)
  show "transactability v = JNull"
    using assms
    by (cases v) (auto simp: missing_raw_def transactability_def is_blank_def Let_def)
qed

subsection \<open>Thermal optimization\<close>

text \<open>\<open>parseInt\<close> yields an integer or \<open>NaN\<close>.\<close>

lemma parseInt_str_int: "parseInt_str s = NaN \<or> (\<exists>k. parseInt_str s = Fin (of_int k))"
proof -
  have "\<And>n. \<exists>k. (of_nat n :: rat) = of_int k \<and> (\<exists>k'. - (of_nat n :: rat) = of_int k')"
    by (metis of_int_of_nat_eq of_int_minus)
  then show ?thesis
    by (auto simp: parseInt_str_def Let_def split: prod.splits)
qed

lemma parseInt_int: "parseInt v = NaN \<or> (\<exists>k. parseInt v = Fin (of_int k))"
  by (cases v) (auto simp: parseInt_str_int parseInt_num_def Let_def split: jsnum.splits)

lemma thermalOptimization_range:
  "thermalOptimization v \<in> {num 0, num 1, num 2}"
proof -
  have parsed: "JNum (parseInt v) \<in> {num 0, num 1, num 2}"
    if "num_ge (parseInt v) (Fin 0)" "num_le (parseInt v) (Fin 2)"
  proof -
    from that obtain k where k: "parseInt v = Fin (of_int k)"
      using parseInt_int [of v] by (auto simp: num_ge_def num_le_def)
    with that have "0 \<le> k \<and> k \<le> 2" by (simp add: num_ge_def num_le_def)
    then have "k = 0 \<or> k = 1 \<or> k = 2" by arith
    with k show ?thesis by auto
  qed
  show ?thesis
    using parsed
    by (auto simp: thermalOptimization_def Let_def split: jsval.splits option.splits)
qed

lemma thermalOptimization_readily:
  "str_includes (toLowerCase s) ''readily apparent'' \<Longrightarrow> thermalOptimization (JStr s) = num 2"
  by (cases s) (auto simp: thermalOptimization_def toLowerCase_def)

lemma thermalOptimization_no_identifiable:
  "\<not> str_includes (toLowerCase s) ''readily apparent'' \<Longrightarrow>
   str_includes (toLowerCase s) ''no identifiable'' \<Longrightarrow> thermalOptimization (JStr s) = num 1"
  by (cases s) (auto simp: thermalOptimization_def toLowerCase_def)

lemma thermalOptimization_integer:
  "k \<in> {0, 1, 2} \<Longrightarrow> thermalOptimization (num (of_int k)) = num (of_int k)"
  by (auto simp: thermalOptimization_def is_blank_def parseInt_num_def num_ge_def num_le_def
      isNaN_def)

lemma thermalOptimization_parsed:
  "\<not> has_keyword v \<Longrightarrow> \<not> missing_raw v \<Longrightarrow> parseInt v = Fin a \<Longrightarrow> 0 \<le> a \<Longrightarrow> a \<le> 2 \<Longrightarrow>
   thermalOptimization v = num a"
  by (cases v)
    (auto simp: thermalOptimization_def missing_raw_def num_ge_def num_le_def isNaN_def
      parseInt_num_def Let_def split: jsnum.splits if_splits)

lemma thermalOptimization_invalid:
  "\<not> has_keyword v \<Longrightarrow>
   parseInt v = NaN \<or> num_less (parseInt v) (Fin 0) \<or> num_less (Fin 2) (parseInt v) \<Longrightarrow>
   thermalOptimization v = num 0"
  by (cases v) (auto simp: thermalOptimization_def num_ge_def num_le_def isNaN_def Let_def)

text \<open>
  C5, as the code has it. Every normalizer but \<open>thermalOptimization\<close> maps a missing
  raw value to the missing sub-score \<open>null\<close>, and \<open>thermalOptimization\<close> maps it to
  0. Moreover \<open>thermalOptimization\<close> maps a text containing "readily apparent" (in any
  case) to 2 and a text containing "no identifiable" and not the former to 1. Any other
  value is read with \<open>parseInt\<close>: it is mapped to the integer read when that is from 0
  to 2, as an integer from 0 to 2 is to itself, and to 0 when \<open>parseInt\<close> gives
  \<open>NaN\<close> or a number outside 0 to 2. \<open>thermalOptimization\<close> never returns
  \<open>null\<close>.
\<close>

theorem normalizers_missing_policy:
  "(missing_raw v \<longrightarrow>
      cod v = JNull \<and> capacityFactor v = JNull \<and> market v = JNull
      \<and> transactability v = JNull \<and> environmental v = JNull \<and> redevMarket v = JNull
      \<and> infra v = JNull \<and> ix v = JNull \<and> thermalOptimization v = num 0)
   \<and> (str_includes (toLowerCase s) ''readily apparent'' \<longrightarrow>
        thermalOptimization (JStr s) = num 2)
   \<and> (\<not> str_includes (toLowerCase s) ''readily apparent''
        \<and> str_includes (toLowerCase s) ''no identifiable'' \<longrightarrow>
        thermalOptimization (JStr s) = num 1)
   \<and> (k \<in> {0, 1, 2} \<longrightarrow> thermalOptimization (num (of_int k)) = num (of_int k))
   \<and> (\<not> has_keyword v \<and> \<not> missing_raw v \<and> parseInt v = Fin a \<and> 0 \<le> a \<and> a \<le> 2 \<longrightarrow>
        thermalOptimization v = num a)
   \<and> (\<not> has_keyword v
        \<and> (parseInt v = NaN \<or> num_less (parseInt v) (Fin 0) \<or> num_less (Fin 2) (parseInt v)) \<longrightarrow>
        thermalOptimization v = num 0)
   \<and> thermalOptimization v \<noteq> JNull"
  using normalizers_missing_null [of v] thermalOptimization_missing [of v]
    thermalOptimization_readily [of s] thermalOptimization_no_identifiable [of s]
    thermalOptimization_integer [of k] thermalOptimization_parsed [of v a]
    thermalOptimization_invalid [of v] thermalOptimization_range [of v]
  by auto

theorem normalizers_missing_policy_witness:
  "cod (JStr '' #N/A '') = JNull \<and> market (JStr '' #N/A '') = JNull
   \<and> ix (JStr '' #N/A '') = JNull \<and> thermalOptimization (JStr '' #N/A '') = num 0
   \<and> thermalOptimization (JStr ''Value Readily Apparent'') = num 2
   \<and> thermalOptimization (JStr ''No identifiable value'') = num 1
   \<and> thermalOptimization (num 2) = num 2
   \<and> thermalOptimization (JStr ''1'') = num 1
   \<and> thermalOptimization (JStr ''abc'') = num 0
   \<and> thermalOptimization (num 7) = num 0"
proof -
  have m: "missing_raw (JStr '' #N/A '')"
    by (simp add: missing_raw_def string_eval)
  have r: "str_includes (toLowerCase ''Value Readily Apparent'') ''readily apparent''"
    by (simp add: string_eval)
  have n: "\<not> str_includes (toLowerCase ''No identifiable value'') ''readily apparent''
      \<and> str_includes (toLowerCase ''No identifiable value'') ''no identifiable''"
    by (simp add: string_eval)
  have a: "\<not> has_keyword (JStr ''abc'') \<and> parseInt (JStr ''abc'') = NaN"
    by (simp add: string_eval parse_eval)
  have b: "\<not> has_keyword (num 7) \<and> num_less (Fin 2) (parseInt (num 7))"
    by (simp add: parseInt_num_def)
  have c: "\<not> has_keyword (JStr ''1'') \<and> \<not> missing_raw (JStr ''1'')
      \<and> parseInt (JStr ''1'') = Fin 1"
    by (simp add: missing_raw_def is_blank_def string_eval parse_eval)
  show ?thesis
    using normalizers_missing_policy [of "JStr '' #N/A ''" "''Value Readily Apparent''" 2 0]
      normalizers_missing_policy [of "JStr ''abc''" "''No identifiable value''" 2 0]
      normalizers_missing_policy [of "num 7" "[]" 2 0]
      normalizers_missing_policy [of "JStr ''1''" "[]" 2 1] m r n a b c
    by simp
qed

text \<open>
  C5, as stated, sends to 0 every value that is neither a keyword text nor an explicit
  integer from 0 to 2. \<open>thermalOptimization\<close> reads the value with \<open>parseInt\<close>, which
  keeps the integer in front and drops the rest: 2.5 and the texts "2 units" and "0x2" give
  2, and the text "1.9" gives 1.
\<close>

theorem thermalOptimization_reads_prefix:
  "thermalOptimization (num (5 / 2)) = num 2
   \<and> thermalOptimization (num (5 / 2)) \<noteq> num 0
   \<and> thermalOptimization (JStr ''2 units'') = num 2
   \<and> thermalOptimization (JStr ''1.9'') = num 1
   \<and> thermalOptimization (JStr ''0x2'') = num 2"
proof -
  have f: "\<lfloor>5 / 2 :: rat\<rfloor> = 2"
    by (simp add: floor_eq_iff)
  show ?thesis
    by (simp add: thermalOptimization_def is_blank_def parseInt_num_def num_ge_def num_le_def
        isNaN_def string_eval parse_eval f)
qed

subsection \<open>Transactability\<close>

lemma clamp_int:
  "Math_min (Math_max (Fin (of_int k)) (Fin 0)) (Fin 3) = Fin (min 3 (max 0 (of_int k)))"
  by (simp add: Math_min_def Math_max_def min_def max_def)

lemma clamp_round:
  "Math_min (Math_max (Math_round (Fin r)) (Fin 0)) (Fin 3) =
     Fin (min 3 (max 0 (of_int \<lfloor>r + 1 / 2\<rfloor>)))"
  by (simp only: Math_round.simps clamp_int)

text \<open>
  C6. For a text \<open>s\<close> that is present (its trimmed form is neither empty nor an error
  token), with \<open>l\<close> the trimmed text in lower case: "bilateral" and "developed" give 3;
  otherwise "bilateral", or "process" with "less than 10", gives 2; otherwise
  "competitive" with "more than 10" gives 1; any other text gives 2. The second rule
  binds as \<open>bilateral or (process and less than 10)\<close>: a text with "bilateral",
  "competitive" and "more than 10" but neither "developed" nor "less than 10" gives 2,
  where the other binding would give 1. A number is rounded to the nearest integer and
  clamped to the range from 0 to 3.
\<close>

theorem transactability_keywords:
  assumes "\<not> is_sentinel (trim s)" and "l = toLowerCase (trim s)"
  shows
    "(str_includes l ''bilateral'' \<and> str_includes l ''developed'' \<longrightarrow>
        transactability (JStr s) = num 3)
     \<and> (str_includes l ''bilateral'' \<and> \<not> str_includes l ''developed'' \<longrightarrow>
        transactability (JStr s) = num 2)
     \<and> (\<not> str_includes l ''bilateral'' \<and> str_includes l ''process''
          \<and> str_includes l ''less than 10'' \<longrightarrow>
        transactability (JStr s) = num 2)
     \<and> (\<not> str_includes l ''bilateral''
          \<and> \<not> (str_includes l ''process'' \<and> str_includes l ''less than 10'')
          \<and> str_includes l ''competitive'' \<and> str_includes l ''more than 10'' \<longrightarrow>
        transactability (JStr s) = num 1)
     \<and> (\<not> str_includes l ''bilateral''
          \<and> \<not> (str_includes l ''process'' \<and> str_includes l ''less than 10'')
          \<and> \<not> (str_includes l ''competitive'' \<and> str_includes l ''more than 10'') \<longrightarrow>
        transactability (JStr s) = num 2)
     \<and> (str_includes l ''bilateral'' \<and> \<not> str_includes l ''developed''
          \<and> \<not> str_includes l ''less than 10''
          \<and> str_includes l ''competitive'' \<and> str_includes l ''more than 10'' \<longrightarrow>
        transactability (JStr s) = num 2 \<and> misbound_rule l = 1)
     \<and> transactability (num r) = num (min 3 (max 0 (of_int \<lfloor>r + 1 / 2\<rfloor>)))"
proof -
  have ne: "s \<noteq> []"
    using assms(1) by (auto simp: trim_def is_sentinel_def)
  have rule: "transactability (JStr s) =
      (if str_includes l ''bilateral'' \<and> str_includes l ''developed'' then num 3
       else if str_includes l ''bilateral''
               \<or> str_includes l ''process'' \<and> str_includes l ''less than 10'' then num 2
       else if str_includes l ''competitive'' \<and> str_includes l ''more than 10'' then num 1
       else num 2)"
    using assms ne by (simp add: transactability_def is_blank_def Let_def)
  have numeric: "transactability (num r) = num (min 3 (max 0 (of_int \<lfloor>r + 1 / 2\<rfloor>)))"
    by (simp add: transactability_def is_blank_def isNaN_def clamp_round del: Math_round.simps)
  show ?thesis
    unfolding rule using numeric by (simp add: misbound_rule_def)
qed

theorem transactability_keywords_witness:
  "transactability (JStr ''Bilateral; competitive process, more than 10 bidders'') = num 2
   \<and> misbound_rule ''bilateral; competitive process, more than 10 bidders'' = 1
   \<and> transactability (JStr ''Bilateral - Developed'') = num 3
   \<and> transactability (JStr ''Process, less than 10 bidders'') = num 2
   \<and> transactability (JStr ''Competitive, more than 10 bidders'') = num 1
   \<and> transactability (JStr ''P'') = num 2
   \<and> transactability (num (5 / 2)) = num 3"
proof -
  have p: "\<not> is_sentinel (trim ''Bilateral; competitive process, more than 10 bidders'')"
    "\<not> is_sentinel (trim ''Bilateral - Developed'')"
    "\<not> is_sentinel (trim ''Process, less than 10 bidders'')"
    "\<not> is_sentinel (trim ''Competitive, more than 10 bidders'')"
    "\<not> is_sentinel (trim ''P'')"
    by (simp_all add: string_eval)
  have l: "''bilateral; competitive process, more than 10 bidders''
      = toLowerCase (trim ''Bilateral; competitive process, more than 10 bidders'')"
    "''bilateral - developed'' = toLowerCase (trim ''Bilateral - Developed'')"
    "''process, less than 10 bidders'' = toLowerCase (trim ''Process, less than 10 bidders'')"
    "''competitive, more than 10 bidders''
      = toLowerCase (trim ''Competitive, more than 10 bidders'')"
    "''p'' = toLowerCase (trim ''P'')"
    by (simp_all add: string_eval)
  show ?thesis
    using transactability_keywords [OF p(1) l(1), of "5 / 2"]
      transactability_keywords [OF p(2) l(2), of 0]
      transactability_keywords [OF p(3) l(3), of 0]
      transactability_keywords [OF p(4) l(4), of 0]
      transactability_keywords [OF p(5) l(5), of 0]
    by simp
qed

section \<open>Properties of the rating\<close>




section \<open>Properties of the capacity size score\<close>

text \<open>
  C10. \<open>calculateCapacitySizeScore\<close> returns \<open>null\<close> when the capacity is \<open>null\<close>,
  \<open>undefined\<close>, the empty string or does not parse to a number; otherwise it returns 1
  when the parsed capacity exceeds the threshold (150 for a portfolio, 50 otherwise) and 0
  when it does not, so that exactly 50 MW, or exactly 150 MW for a portfolio, scores 0.
\<close>

theorem calculateCapacitySizeScore_threshold:
  "(mw = JNull \<or> mw = JUndefined \<or> mw = JStr [] \<or> isNaN (parseFloat mw)
      \<longrightarrow> calculateCapacitySizeScore mw isPortfolio = JNull)
   \<and> (mw \<noteq> JNull \<and> mw \<noteq> JUndefined \<and> mw \<noteq> JStr [] \<and> parseFloat mw = Fin a
      \<longrightarrow> calculateCapacitySizeScore mw isPortfolio =
          (if (if isPortfolio then 150 else 50) < a then num 1 else num 0))
   \<and> calculateCapacitySizeScore (num 50) False = num 0
   \<and> calculateCapacitySizeScore (num 150) True = num 0"
  by (auto simp: calculateCapacitySizeScore_def isNaN_def num_gt_def Let_def)

theorem calculateCapacitySizeScore_threshold_witness:
  "calculateCapacitySizeScore (JStr ''abc'') False = JNull
   \<and> calculateCapacitySizeScore (JStr ''50.5'') False = num 1
   \<and> calculateCapacitySizeScore (JStr ''150'') True = num 0"
proof -
  have nan: "isNaN (parseFloat (JStr ''abc''))"
    by (simp add: isNaN_def parse_eval trimStart_def is_space_def)
  have a: "parseFloat (JStr ''50.5'') = Fin (101 / 2)"
    by (simp add: parse_eval trimStart_def is_space_def)
  have b: "parseFloat (JStr ''150'') = Fin 150"
    by (simp add: parse_eval trimStart_def is_space_def)
  show ?thesis
    using calculateCapacitySizeScore_threshold [of "JStr ''abc''" False 0]
      calculateCapacitySizeScore_threshold [of "JStr ''50.5''" False "101 / 2"]
      calculateCapacitySizeScore_threshold [of "JStr ''150''" True 150] nan a b
    by simp
qed

section \<open>Properties of the score record lifecycle\<close>

text \<open>A transaction applies all of its operations or none of them.\<close>

lemma run_ops_all_or_nothing:
  "run_ops fault ops st = None \<or> run_ops fault ops st = Some (fold apply_op ops st)"
  by (induction fault ops st rule: run_ops.induct) auto

lemma transaction_atomic:
  "transaction fault ops st = (Inl StorageError, st)
   \<or> transaction fault ops st = (Inr (), fold apply_op ops st)"
  using run_ops_all_or_nothing [of fault ops st] by (auto simp: transaction_def)

text \<open>
  C8. \<open>saveOverride\<close> is atomic. A storage failure after the write of the current
  record and before the history append (the fault \<open>Some 1\<close>) reports the error and leaves
  the storage as it was. Without a failure the save succeeds. Whatever the fault, either
  the error is reported and the storage is unchanged, or the save succeeds, the current
  record is the new one and the history of the project has the new entry at its end.
\<close>

theorem saveOverride_atomic:
  "saveOverride (Some 1) projectId r summary st = (Inl StorageError, st)
   \<and> fst (saveOverride None projectId r summary st) = Inr r
   \<and> (saveOverride fault projectId r summary st = (Inl StorageError, st)
      \<or> (fst (saveOverride fault projectId r summary st) = Inr r
          \<and> current_record (snd (saveOverride fault projectId r summary st)) projectId = Some r
          \<and> history_entries (snd (saveOverride fault projectId r summary st)) projectId =
              history_entries st projectId @ [\<lparr>snapshot = r, changes_summary = summary\<rparr>]))"
proof -
  let ?ops = "[WriteCurrent projectId r,
               AppendHistory projectId \<lparr>snapshot = r, changes_summary = summary\<rparr>]"
  have one: "saveOverride (Some 1) projectId r summary st = (Inl StorageError, st)"
    by (simp add: saveOverride_def transaction_def)
  have none: "fst (saveOverride None projectId r summary st) = Inr r"
    by (simp add: saveOverride_def transaction_def)
  have both: "current_record (fold apply_op ?ops st) projectId = Some r
      \<and> history_entries (fold apply_op ?ops st) projectId =
          history_entries st projectId @ [\<lparr>snapshot = r, changes_summary = summary\<rparr>]"
    by simp
  from transaction_atomic [of fault ?ops st] both one none show ?thesis
    by (auto simp: saveOverride_def)
qed

lemma entries_of_delete:
  "entries_of q (delete_entries p rows) = (if q = p then [] else entries_of q rows)"
  by (induction rows) (auto simp: entries_of_def delete_entries_def)

lemma entries_of_insert:
  "entries_of q (insert_entries p es rows) = entries_of q rows @ (if q = p then es else [])"
  by (induction es) (auto simp: entries_of_def insert_entries_def comp_def)

text \<open>
  C9. A replacement set of more than 5 entries is rejected with an error and the table is
  left as it was. Any other set is accepted: afterwards the entries of the project are
  exactly the new set, and the entries of every other project are as before. The empty
  set is accepted and leaves the project without entries.
\<close>

theorem replaceChildEntries_cap:
  "(length es > 5 \<longrightarrow>
      replaceChildEntries p es rows =
        (Inl (ValidationError ''Maximum of 5 POI voltage entries allowed''), rows))
   \<and> (length es \<le> 5 \<longrightarrow>
        fst (replaceChildEntries p es rows) = Inr ()
        \<and> entries_of p (snd (replaceChildEntries p es rows)) = es
        \<and> (q \<noteq> p \<longrightarrow> entries_of q (snd (replaceChildEntries p es rows)) = entries_of q rows))
   \<and> fst (replaceChildEntries p [] rows) = Inr ()
   \<and> entries_of p (snd (replaceChildEntries p [] rows)) = []"
  by (auto simp: replaceChildEntries_def entries_of_delete entries_of_insert Let_def)

theorem replaceChildEntries_cap_witness:
  "replaceChildEntries 1 [1, 2, 3, 4, 5, 6 :: nat] [(1, 9), (2, 8)] =
     (Inl (ValidationError ''Maximum of 5 POI voltage entries allowed''), [(1, 9), (2, 8)])
   \<and> fst (replaceChildEntries 1 [7, 6 :: nat] [(1, 9), (2, 8)]) = Inr ()
   \<and> entries_of 1 (snd (replaceChildEntries 1 [7, 6 :: nat] [(1, 9), (2, 8)])) = [7, 6]
   \<and> entries_of 2 (snd (replaceChildEntries 1 [7, 6 :: nat] [(1, 9), (2, 8)])) = [8]"
proof -
  have e: "entries_of 2 [(1, 9), (2, 8 :: nat)] = [8]"
    by (simp add: entries_of_def)
  show ?thesis
    using replaceChildEntries_cap [of "[1, 2, 3, 4, 5, 6 :: nat]" 1 "[(1, 9), (2, 8)]" 2]
      replaceChildEntries_cap [of "[7, 6 :: nat]" 1 "[(1, 9), (2, 8)]" 2] e
    by simp
qed

end
